theory Spec2Isabelle
  imports Complex_Main "HOL-Library.Char_ord" "HOL-Library.List_Lexorder" "HOL-Library.AList"
begin

section \<open>Smart cache (internal/cache/smart\_cache.go)\<close>

text \<open>
  Times (\<open>time.Time\<close>) and durations (\<open>time.Duration\<close>) are integers counting
  nanoseconds; every operation that reads the clock takes the reading \<open>now\<close> as an
  argument. Go's \<open>int64\<close> byte counts are unbounded integers: no claim below depends on
  wrap-around.
\<close>

type_synonym time = int

definition minute :: int where
  "minute = 60 * 1000000000"

record HotEntry =
  AccessCount :: int
  LastAccess :: time
  TTL :: int
  Size :: int

record 'v CacheEntry =
  ce_Value :: 'v
  ce_Size :: int
  ce_CreatedAt :: time
  ce_ExpiresAt :: time
  ce_Checksum :: string

text \<open>
  A cached \<open>interface{}\<close>: either a pointer to a \<open>CacheEntry\<close> (what
  \<open>SetWithMetadata\<close> stores, and what the type assertion in \<open>GetWithValidation\<close>
  recognises) or any other value.
\<close>

datatype 'v cached = Plain 'v | Entry "'v CacheEntry"

record CacheStats =
  Hits :: int
  Misses :: int
  Evictions :: int
  HotPromotions :: int

text \<open>
  The LRU store of the library \<open>hashicorp/golang-lru\<close> is a list of key/value pairs,
  most recently used first, with a fixed capacity \<open>lru_size\<close>. \<open>hotData\<close> is a Go map;
  it is an association list with distinct keys, and a \<open>range\<close> loop over it visits the
  pairs in list order.
\<close>

record 'v SmartCache =
  lru :: "(string \<times> 'v cached) list"
  lru_size :: nat
  hotData :: "(string \<times> HotEntry) list"
  maxMemory :: int
  currentMem :: int
  stats :: CacheStats

subsection \<open>The LRU library\<close>

definition lru_Remove :: "(string \<times> 'a) list \<Rightarrow> string \<Rightarrow> (string \<times> 'a) list" where
  "lru_Remove l k = filter (\<lambda>p. fst p \<noteq> k) l"

text \<open>\<open>Get\<close> moves a key that is present to the front.\<close>

definition lru_Get :: "(string \<times> 'a) list \<Rightarrow> string \<Rightarrow> 'a option \<times> (string \<times> 'a) list" where
  "lru_Get l k =
     (case map_of l k of
        None \<Rightarrow> (None, l)
      | Some v \<Rightarrow> (Some v, (k, v) # lru_Remove l k))"

text \<open>
  \<open>Add\<close> replaces the value of a key that is present and moves it to the front; a new
  key is pushed to the front and, when the store then holds more than \<open>n\<close> pairs, the
  oldest pair is dropped. The eviction callback given by \<open>NewSmartCache\<close> has an empty
  body, so dropping the pair is all that happens.
\<close>

definition lru_Add :: "nat \<Rightarrow> (string \<times> 'a) list \<Rightarrow> string \<Rightarrow> 'a \<Rightarrow> (string \<times> 'a) list" where
  "lru_Add n l k v =
     (case map_of l k of
        Some old \<Rightarrow> (k, v) # lru_Remove l k
      | None \<Rightarrow> (if length l + 1 > n then butlast ((k, v) # l) else (k, v) # l))"

subsection \<open>The hot-entry table\<close>

definition hot_delete :: "(string \<times> HotEntry) list \<Rightarrow> string \<Rightarrow> (string \<times> HotEntry) list" where
  "hot_delete h k = filter (\<lambda>p. fst p \<noteq> k) h"

definition hot_put :: "(string \<times> HotEntry) list \<Rightarrow> string \<Rightarrow> HotEntry \<Rightarrow> (string \<times> HotEntry) list" where
  "hot_put h k e =
     (case map_of h k of
        None \<Rightarrow> h @ [(k, e)]
      | Some old \<Rightarrow> map (\<lambda>p. if fst p = k then (k, e) else p) h)"

subsection \<open>Statistics\<close>

definition recordHit :: "CacheStats \<Rightarrow> CacheStats" where
  "recordHit s = s\<lparr>Hits := Hits s + 1\<rparr>"

definition recordMiss :: "CacheStats \<Rightarrow> CacheStats" where
  "recordMiss s = s\<lparr>Misses := Misses s + 1\<rparr>"

definition recordEviction :: "CacheStats \<Rightarrow> CacheStats" where
  "recordEviction s = s\<lparr>Evictions := Evictions s + 1\<rparr>"

definition recordHotPromotion :: "CacheStats \<Rightarrow> CacheStats" where
  "recordHotPromotion s = s\<lparr>HotPromotions := HotPromotions s + 1\<rparr>"

subsection \<open>Operations\<close>

definition NewSmartCache :: "int \<Rightarrow> 'v SmartCache" where
  "NewSmartCache maxMemoryMB =
     \<lparr>lru = [], lru_size = 1000, hotData = [],
      maxMemory = maxMemoryMB * 1024 * 1024, currentMem = 0,
      stats = \<lparr>Hits = 0, Misses = 0, Evictions = 0, HotPromotions = 0\<rparr>\<rparr>"

definition updateHotData :: "'v SmartCache \<Rightarrow> time \<Rightarrow> string \<Rightarrow> bool \<Rightarrow> 'v SmartCache" where
  "updateHotData c now k isHit =
     (case map_of (hotData c) k of
        Some e \<Rightarrow>
          (let e1 = e\<lparr>AccessCount := AccessCount e + 1, LastAccess := now\<rparr> in
           if AccessCount e1 > 3 \<and> TTL e1 < 10 * minute
           then c\<lparr>hotData := hot_put (hotData c) k (e1\<lparr>TTL := 10 * minute\<rparr>),
                  stats := recordHotPromotion (stats c)\<rparr>
           else c\<lparr>hotData := hot_put (hotData c) k e1\<rparr>)
      | None \<Rightarrow>
          (if isHit
           then c\<lparr>hotData := hot_put (hotData c) k
                  \<lparr>AccessCount = 1, LastAccess = now, TTL = 5 * minute, Size = 0\<rparr>\<rparr>
           else c))"

definition Get :: "'v SmartCache \<Rightarrow> time \<Rightarrow> string \<Rightarrow> 'v SmartCache \<times> 'v cached option" where
  "Get c now k =
     (case lru_Get (lru c) k of
        (Some v, l') \<Rightarrow>
          (updateHotData (c\<lparr>lru := l', stats := recordHit (stats c)\<rparr>) now k True, Some v)
      | (None, l') \<Rightarrow> (c\<lparr>lru := l', stats := recordMiss (stats c)\<rparr>, None))"

text \<open>
  One pass of \<open>evictColdData\<close>: the loop over \<open>hotData\<close> that stops as soon as
  \<open>freedSpace >= neededSpace\<close> and evicts the entries that satisfy the pass's test.
  The pairs still to visit are the first argument.
\<close>

fun evictPass :: "(HotEntry \<Rightarrow> bool) \<Rightarrow> int \<Rightarrow> (string \<times> HotEntry) list \<Rightarrow>
    'v SmartCache \<times> int \<Rightarrow> 'v SmartCache \<times> int" where
  "evictPass P needed [] (c, freed) = (c, freed)"
| "evictPass P needed ((k, e) # rest) (c, freed) =
     (if freed \<ge> needed then (c, freed)
      else if P e
      then evictPass P needed rest
             (c\<lparr>lru := lru_Remove (lru c) k,
                currentMem := currentMem c - Size e,
                hotData := hot_delete (hotData c) k,
                stats := recordEviction (stats c)\<rparr>,
              freed + Size e)
      else evictPass P needed rest (c, freed))"

definition evictColdData :: "'v SmartCache \<Rightarrow> time \<Rightarrow> int \<Rightarrow> 'v SmartCache \<times> bool" where
  "evictColdData c now neededSpace =
     (let threshold = now - 5 * minute;
          (c1, freed1) = evictPass (\<lambda>e. AccessCount e < 2 \<and> LastAccess e < threshold)
                           neededSpace (hotData c) (c, 0);
          (c2, freed2) =
            (if freed1 < neededSpace
             then evictPass (\<lambda>e. LastAccess e < now - 15 * minute)
                    neededSpace (hotData c1) (c1, freed1)
             else (c1, freed1))
      in (c2, freed2 \<ge> neededSpace))"

definition Set :: "'v SmartCache \<Rightarrow> time \<Rightarrow> string \<Rightarrow> 'v cached \<Rightarrow> int \<Rightarrow> 'v SmartCache \<times> bool" where
  "Set c now k v sz =
     (let (c1, ok) = (if currentMem c + sz > maxMemory c then evictColdData c now sz
                      else (c, True))
      in if \<not> ok then (c1, False)
         else
           (let (found, l2) = lru_Get (lru c1) k;
                c2 = c1\<lparr>lru := l2\<rparr>;
                c3 = (case found of
                        None \<Rightarrow> c2
                      | Some old \<Rightarrow>
                          (case map_of (hotData c2) k of
                             None \<Rightarrow> c2
                           | Some oldEntry \<Rightarrow> c2\<lparr>currentMem := currentMem c2 - Size oldEntry\<rparr>));
                c4 = c3\<lparr>lru := lru_Add (lru_size c3) (lru c3) k v,
                        currentMem := currentMem c3 + sz\<rparr>;
                c5 = c4\<lparr>hotData := hot_put (hotData c4) k
                        \<lparr>AccessCount = 1, LastAccess = now, TTL = 5 * minute, Size = sz\<rparr>\<rparr>
            in (c5, True)))"

definition Delete :: "'v SmartCache \<Rightarrow> string \<Rightarrow> 'v SmartCache" where
  "Delete c k =
     (let c1 = (case map_of (hotData c) k of
                  None \<Rightarrow> c
                | Some e \<Rightarrow> c\<lparr>currentMem := currentMem c - Size e,
                              hotData := hot_delete (hotData c) k\<rparr>)
      in c1\<lparr>lru := lru_Remove (lru c1) k\<rparr>)"

definition Clear :: "'v SmartCache \<Rightarrow> 'v SmartCache" where
  "Clear c = c\<lparr>lru := [], hotData := [], currentMem := 0\<rparr>"

definition GetMemoryUsage :: "'v SmartCache \<Rightarrow> int \<times> int" where
  "GetMemoryUsage c = (currentMem c, maxMemory c)"

text \<open>The sweeper's loop over \<open>hotData\<close>; the pairs still to visit are the first argument.\<close>

fun cleanupLoop :: "time \<Rightarrow> (string \<times> HotEntry) list \<Rightarrow> 'v SmartCache \<Rightarrow> 'v SmartCache" where
  "cleanupLoop now [] c = c"
| "cleanupLoop now ((k, e) # rest) c =
     (if now - LastAccess e > TTL e
      then cleanupLoop now rest
             (c\<lparr>lru := lru_Remove (lru c) k,
                currentMem := currentMem c - Size e,
                hotData := hot_delete (hotData c) k\<rparr>)
      else cleanupLoop now rest c)"

definition cleanup :: "'v SmartCache \<Rightarrow> time \<Rightarrow> 'v SmartCache" where
  "cleanup c now = cleanupLoop now (hotData c) c"

definition SetWithMetadata :: "'v SmartCache \<Rightarrow> time \<Rightarrow> string \<Rightarrow> 'v CacheEntry \<Rightarrow> 'v SmartCache \<times> bool" where
  "SetWithMetadata c now k entry = Set c now k (Entry entry) (ce_Size entry)"

text \<open>
  \<open>GetWithValidation\<close> returns the value and the hit flag. For a \<open>CacheEntry\<close> the
  value returned is the entry's own \<open>Value\<close>; any other cached value is returned as it is.
\<close>

definition GetWithValidation ::
    "'v SmartCache \<Rightarrow> time \<Rightarrow> string \<Rightarrow> string \<Rightarrow> 'v SmartCache \<times> 'v option \<times> bool" where
  "GetWithValidation c now k expectedChecksum =
     (case Get c now k of
        (c1, None) \<Rightarrow> (c1, None, False)
      | (c1, Some (Entry entry)) \<Rightarrow>
          (if now > ce_ExpiresAt entry then (Delete c1 k, None, False)
           else if expectedChecksum \<noteq> [] \<and> ce_Checksum entry \<noteq> expectedChecksum
           then (Delete c1 k, None, False)
           else (c1, Some (ce_Value entry), True))
      | (c1, Some (Plain v)) \<Rightarrow> (c1, Some v, True))"

text \<open>
  The bytes of the live entries: the sum, over the entries the store holds (those that
  \<open>Get\<close> returns), of the size recorded for the key in \<open>hotData\<close>.
\<close>

definition live_size :: "'v SmartCache \<Rightarrow> int" where
  "live_size c =
     (\<Sum>p\<leftarrow>lru c. case map_of (hotData c) (fst p) of Some e \<Rightarrow> Size e | None \<Rightarrow> 0)"

section \<open>Strings and formatting helpers\<close>

text \<open>
  Go strings are byte sequences; \<open>string\<close> is a list of bytes. \<open>strings.Contains\<close>,
  \<open>strings.HasPrefix\<close> and the decimal formatting of \<open>fmt.Sprintf("%d")\<close> are written
  out. \<open>strings.ToLower\<close>, \<open>strings.ToUpper\<close> and \<open>strings.Fields\<close> are modelled on
  ASCII: letters \<open>A\<close>-\<open>Z\<close> change case, and the separators are space, tab, line feed,
  vertical tab, form feed and carriage return.
\<close>

fun HasPrefix :: "string \<Rightarrow> string \<Rightarrow> bool" where
  "HasPrefix s [] = True"
| "HasPrefix [] (p # ps) = False"
| "HasPrefix (c # cs) (p # ps) = (c = p \<and> HasPrefix cs ps)"

fun Contains :: "string \<Rightarrow> string \<Rightarrow> bool" where
  "Contains [] sub = (sub = [])"
| "Contains (c # cs) sub = (HasPrefix (c # cs) sub \<or> Contains cs sub)"

definition digit_char :: "nat \<Rightarrow> char" where
  "digit_char d = char_of (48 + d)"

fun itoa_nat :: "nat \<Rightarrow> string" where
  "itoa_nat n = (if n < 10 then [digit_char n] else itoa_nat (n div 10) @ [digit_char (n mod 10)])"

definition itoa :: "int \<Rightarrow> string" where
  "itoa i = (if i < 0 then CHR ''-'' # itoa_nat (nat (- i)) else itoa_nat (nat i))"

definition lower_char :: "char \<Rightarrow> char" where
  "lower_char c =
     (let n = (of_char c :: nat) in if 65 \<le> n \<and> n \<le> 90 then char_of (n + 32) else c)"

definition upper_char :: "char \<Rightarrow> char" where
  "upper_char c =
     (let n = (of_char c :: nat) in if 97 \<le> n \<and> n \<le> 122 then char_of (n - 32) else c)"

definition ToLower :: "string \<Rightarrow> string" where
  "ToLower s = map lower_char s"

definition ToUpper :: "string \<Rightarrow> string" where
  "ToUpper s = map upper_char s"

definition is_space :: "char \<Rightarrow> bool" where
  "is_space c = (let n = (of_char c :: nat) in n = 32 \<or> (9 \<le> n \<and> n \<le> 13))"

text \<open>\<open>Fields\<close>: the maximal runs of non-space bytes; the second argument is the run being read.\<close>

fun fields_from :: "string \<Rightarrow> string \<Rightarrow> string list" where
  "fields_from [] cur = (if cur = [] then [] else [cur])"
| "fields_from (c # cs) cur =
     (if is_space c then (if cur = [] then fields_from cs [] else cur # fields_from cs [])
      else fields_from cs (cur @ [c]))"

definition Fields :: "string \<Rightarrow> string list" where
  "Fields s = fields_from s []"

section \<open>Index engine (internal/index/manager.go)\<close>

text \<open>
  \<open>float64\<close> values are real numbers. The only arithmetic the index does on them is
  comparison, addition of a rectangle's origin and extent, and halving an extent; the
  model is exact there.
\<close>

record Location =
  SheetName :: string
  CellRef :: string
  Row :: int
  Col :: int

record NumericKey =
  nk_Value :: real
  nk_Loc :: Location

definition Less :: "NumericKey \<Rightarrow> NumericKey \<Rightarrow> bool" where
  "Less nk otherKey =
     (if nk_Value nk \<noteq> nk_Value otherKey then nk_Value nk < nk_Value otherKey
      else SheetName (nk_Loc nk) < SheetName (nk_Loc otherKey))"

record Rectangle =
  rect_X :: real
  rect_Y :: real
  rect_Width :: real
  rect_Height :: real

record SpatialPoint =
  sp_X :: real
  sp_Y :: real
  sp_Value :: string
  sp_Loc :: Location

text \<open>A node's \<open>children\<close> array is all \<open>nil\<close> (the empty list) or holds four nodes.\<close>

datatype QuadTree =
  QuadTree (bounds: Rectangle) (points: "SpatialPoint list") (children: "QuadTree list")
    (capacity: int)

text \<open>
  The ordered tree of the library \<open>google/btree\<close> is the ascending list of its items;
  two items are the same item when neither is \<open>Less\<close> than the other. The bloom filter
  of \<open>bits-and-blooms/bloom\<close> is the list of the byte strings added to it.
\<close>

record Manager =
  primary :: "NumericKey list"
  inverted :: "string \<Rightarrow> Location list option"
  spatial :: QuadTree
  bloom :: "string list"
  lastUpdate :: time


text \<open>\<open>AscendRange(greaterOrEqual, lessThan)\<close> visits the items in \<open>[greaterOrEqual, lessThan)\<close>.\<close>

definition AscendRange :: "NumericKey list \<Rightarrow> NumericKey \<Rightarrow> NumericKey \<Rightarrow> NumericKey list" where
  "AscendRange t greaterOrEqual lessThan' =
     filter (\<lambda>i. \<not> Less i greaterOrEqual \<and> Less i lessThan') t"

text \<open>
  \<open>Test\<close> on a bloom filter is true for every string added; on a filter with nothing
  added no bit is set and it is false; otherwise it may be true by collision, which the
  parameter \<open>fp\<close> decides.
\<close>

definition bloom_Test :: "(string list \<Rightarrow> string \<Rightarrow> bool) \<Rightarrow> string list \<Rightarrow> string \<Rightarrow> bool" where
  "bloom_Test fp b s = (s \<in> set b \<or> (b \<noteq> [] \<and> fp b s))"

definition NewQuadTree :: "Rectangle \<Rightarrow> int \<Rightarrow> QuadTree" where
  "NewQuadTree b cap = QuadTree b [] [] cap"

definition emptyLocation :: Location where
  "emptyLocation = \<lparr>SheetName = [], CellRef = [], Row = 0, Col = 0\<rparr>"

definition NewManager :: Manager where
  "NewManager =
     \<lparr>primary = [], inverted = (\<lambda>k. None),
      spatial = NewQuadTree \<lparr>rect_X = 0, rect_Y = 0, rect_Width = 1000, rect_Height = 1000\<rparr> 10,
      bloom = [], lastUpdate = 0\<rparr>"

subsection \<open>Quadtree\<close>


definition intersects :: "Rectangle \<Rightarrow> Rectangle \<Rightarrow> bool" where
  "intersects qb b =
     (\<not> (rect_X b \<ge> rect_X qb + rect_Width qb \<or>
         rect_X b + rect_Width b \<le> rect_X qb \<or>
         rect_Y b \<ge> rect_Y qb + rect_Height qb \<or>
         rect_Y b + rect_Height b \<le> rect_Y qb))"

definition rect_Contains :: "Rectangle \<Rightarrow> real \<Rightarrow> real \<Rightarrow> bool" where
  "rect_Contains r x y =
     (x \<ge> rect_X r \<and> x < rect_X r + rect_Width r \<and> y \<ge> rect_Y r \<and> y < rect_Y r + rect_Height r)"




fun Query :: "QuadTree \<Rightarrow> Rectangle \<Rightarrow> SpatialPoint list" where
  "Query (QuadTree b pts kids cap) r =
     (if \<not> intersects b r then []
      else filter (\<lambda>point. rect_Contains r (sp_X point) (sp_Y point)) pts
           @ concat (map (\<lambda>k. Query k r) kids))"

subsection \<open>Text tokens\<close>





definition stopWords :: "string list" where
  "stopWords = [''the'', ''a'', ''an'', ''and'', ''or'', ''but'', ''in'', ''on'', ''at'', ''to'',
                ''for'', ''of'', ''with'', ''by'', ''is'']"

definition tokenizeText :: "string \<Rightarrow> string list" where
  "tokenizeText t =
     filter (\<lambda>word. length word > 2 \<and> word \<notin> set stopWords) (Fields (ToLower t))"



definition intersectLocations :: "Location list \<Rightarrow> Location list \<Rightarrow> Location list" where
  "intersectLocations a b = filter (\<lambda>loc. loc \<in> set b) a"

subsection \<open>Building and searching\<close>

text \<open>
  A workbook is what \<open>excelize.File.GetRows\<close> returns for each sheet name: the rows of
  the sheet, or nothing when the call fails. \<open>excelize.CoordinatesToCellName\<close> is written
  from the library's documentation: the column in letters (\<open>A\<close>, ..., \<open>Z\<close>, \<open>AA\<close>, ...)
  followed by the row in decimal, and the empty string (the error is dropped by
  \<open>indexSheet\<close>) outside the sheet limits of 16384 columns and 1048576 rows.
\<close>

type_synonym workbook = "string \<Rightarrow> string list list option"

fun ColumnNumberToName :: "nat \<Rightarrow> string" where
  "ColumnNumberToName n =
     (if n = 0 then []
      else ColumnNumberToName ((n - 1) div 26) @ [char_of (65 + (n - 1) mod 26)])"

definition CoordinatesToCellName :: "nat \<Rightarrow> nat \<Rightarrow> string" where
  "CoordinatesToCellName col row =
     (if col < 1 \<or> row < 1 \<or> col > 16384 \<or> row > 1048576 then []
      else ColumnNumberToName col @ itoa_nat row)"


text \<open>The location that \<open>indexSheet\<close> gives the cell at indices \<open>rowIdx\<close>, \<open>colIdx\<close>.\<close>

definition cell_location :: "string \<Rightarrow> nat \<Rightarrow> nat \<Rightarrow> Location" where
  "cell_location sheetName rowIdx colIdx =
     \<lparr>SheetName = sheetName,
      CellRef = CoordinatesToCellName (colIdx + 1) (rowIdx + 1),
      Row = int rowIdx + 1, Col = int colIdx + 1\<rparr>"







fun intersectTokens :: "(string \<Rightarrow> Location list option) \<Rightarrow> string list \<Rightarrow> Location list \<Rightarrow>
    Location list" where
  "intersectTokens ix [] results = results"
| "intersectTokens ix (token # tokens) results =
     (case ix token of
        Some locations \<Rightarrow> intersectTokens ix tokens (intersectLocations results locations)
      | None \<Rightarrow> [])"

definition SearchText :: "(string list \<Rightarrow> string \<Rightarrow> bool) \<Rightarrow> Manager \<Rightarrow> string \<Rightarrow> Location list" where
  "SearchText fp idx query =
     (if \<not> bloom_Test fp (bloom idx) query then []
      else
        (case tokenizeText query of
           [] \<Rightarrow> []
         | token0 # tokens \<Rightarrow>
             intersectTokens (inverted idx) tokens
               (case inverted idx token0 of Some locations \<Rightarrow> locations | None \<Rightarrow> [])))"

definition SearchNumericRange :: "Manager \<Rightarrow> real \<Rightarrow> real \<Rightarrow> Location list" where
  "SearchNumericRange idx min_v max_v =
     map nk_Loc
       (AscendRange (primary idx) \<lparr>nk_Value = min_v, nk_Loc = emptyLocation\<rparr>
          \<lparr>nk_Value = max_v, nk_Loc = emptyLocation\<rparr>)"

definition SearchSpatial :: "Manager \<Rightarrow> Rectangle \<Rightarrow> Location list" where
  "SearchSpatial idx r = map sp_Loc (Query (spatial idx) r)"

subsection \<open>Invariants of the index\<close>

text \<open>
  For the statements and proofs about the index. \<open>posted\<close>: a location is in the posting
  list of a token. \<open>stored\<close>: the points held anywhere in a quadtree. \<open>good\<close>: the
  capacity is positive, every point lies in the rectangle of its node, and the children of
  a node are its four quadrants. \<open>ins_ok\<close>: what one \<open>Insert\<close> keeps and adds.
  \<open>sound\<close>: the manager's quadtree is good and spans the rectangle given by
  \<open>NewManager\<close>. \<open>extends\<close>: a later state of the manager holds everything an earlier
  one held. \<open>found\<close>: the cell at the indices \<open>r\<close>, \<open>c\<close> is in the bloom filter, in the
  posting list of each of its tokens and, inside the rectangle, in the quadtree.
\<close>

definition posted :: "(string \<Rightarrow> Location list option) \<Rightarrow> string \<Rightarrow> Location \<Rightarrow> bool" where
  "posted ix tok loc = (case ix tok of Some ls \<Rightarrow> loc \<in> set ls | None \<Rightarrow> False)"

fun stored :: "QuadTree \<Rightarrow> SpatialPoint set" where
  "stored (QuadTree b pts kids cap) = set pts \<union> (\<Union>k \<in> set kids. stored k)"






definition found :: "Manager \<Rightarrow> string \<Rightarrow> nat \<Rightarrow> nat \<Rightarrow> string \<Rightarrow> bool" where
  "found idx sheet r c v =
     (v \<in> set (bloom idx) \<and>
      (\<forall>tok \<in> set (tokenizeText v). posted (inverted idx) tok (cell_location sheet r c)) \<and>
      (c < 1000 \<and> r < 1000 \<longrightarrow>
         \<lparr>sp_X = real c, sp_Y = real r, sp_Value = v, sp_Loc = cell_location sheet r c\<rparr>
           \<in> stored (spatial idx)))"

section \<open>Errors and dynamic values\<close>

text \<open>
  A Go \<open>error\<close> is its message: \<open>Msg\<close> is an error made from a text, and
  \<open>Wrapped p e\<close> is \<open>fmt.Errorf(p + ": %w", e)\<close>. \<open>Error\<close> is the method that
  prints it.
\<close>

datatype error = Msg string | Wrapped string error


text \<open>
  What a call does: it returns a value, returns an error, or panics (a run-time panic is
  not an error value: no caller of the modelled code recovers it).
\<close>

datatype 'a outcome = Returns 'a | Fails error | Panics string

text \<open>Sequencing: the rest of a function runs only when a call returns.\<close>

definition and_then :: "'a outcome \<Rightarrow> ('a \<Rightarrow> 'b outcome) \<Rightarrow> 'b outcome" where
  "and_then r f = (case r of Returns x \<Rightarrow> f x | Fails e \<Rightarrow> Fails e | Panics p \<Rightarrow> Panics p)"

text \<open>
  An \<open>interface{}\<close> holding decoded JSON or values built by the server: the constructor
  is the dynamic type that a type assertion tests. A \<open>map[string]interface{}\<close> is an
  association list with distinct keys, and a \<open>range\<close> loop over it visits the pairs in
  list order (Go leaves the order open).
\<close>

datatype iface =
    INil
  | IBool bool
  | IInt int
  | IFloat64 real
  | IString string
  | ISlice "iface list"
  | IMap "(string \<times> iface) list"

text \<open>
  The type assertions \<open>m[k].(string)\<close>, \<open>m[k].(bool)\<close>, \<open>m[k].(float64)\<close> and
  \<open>m[k].(map[string]interface{})\<close> on a parameter map: \<open>None\<close> when the key is
  missing or holds another dynamic type.
\<close>

definition assert_string :: "(string \<times> iface) list \<Rightarrow> string \<Rightarrow> string option" where
  "assert_string m k = (case map_of m k of Some (IString v) \<Rightarrow> Some v | _ \<Rightarrow> None)"

definition assert_bool :: "(string \<times> iface) list \<Rightarrow> string \<Rightarrow> bool option" where
  "assert_bool m k = (case map_of m k of Some (IBool v) \<Rightarrow> Some v | _ \<Rightarrow> None)"

definition assert_float64 :: "(string \<times> iface) list \<Rightarrow> string \<Rightarrow> real option" where
  "assert_float64 m k = (case map_of m k of Some (IFloat64 v) \<Rightarrow> Some v | _ \<Rightarrow> None)"

definition assert_map :: "(string \<times> iface) list \<Rightarrow> string \<Rightarrow> (string \<times> iface) list option" where
  "assert_map m k = (case map_of m k of Some (IMap v) \<Rightarrow> Some v | _ \<Rightarrow> None)"

section \<open>Cursor codec (internal/cursor)\<close>

definition CURSOR_VERSION :: int where
  "CURSOR_VERSION = 1"

record Window =
  StartRow :: int
  EndRow :: int
  StartCol :: int
  EndCol :: int

record CursorData =
  ChunkID :: string
  Offset :: int
  Version :: int
  Checksum :: string
  Timestamp :: int
  WindowInfo :: "Window option"

text \<open>
  The standard library functions the codec calls, as parameters: \<open>json.Marshal\<close> and
  \<open>json.Unmarshal\<close> at the type \<open>CursorData\<close>, and \<open>base64.URLEncoding\<close>. A failure
  carries the library's message.
\<close>

record codec =
  json_Marshal :: "CursorData \<Rightarrow> string + string"
  json_Unmarshal :: "string \<Rightarrow> string + CursorData"
  EncodeToString :: "string \<Rightarrow> string"
  DecodeString :: "string \<Rightarrow> string + string"

record CursorManager =
  version :: int

definition cursor_NewManager :: CursorManager where
  "cursor_NewManager = \<lparr>version = CURSOR_VERSION\<rparr>"

text \<open>\<open>unix_now\<close> is \<open>time.Now().Unix()\<close>, in seconds.\<close>

definition GenerateCursor :: "codec \<Rightarrow> CursorManager \<Rightarrow> int \<Rightarrow> CursorData \<Rightarrow> string" where
  "GenerateCursor lib m unix_now data =
     (let data1 = data\<lparr>Version := version m, Timestamp := unix_now\<rparr> in
      case json_Marshal lib data1 of
        Inl err \<Rightarrow> []
      | Inr jsonData \<Rightarrow> EncodeToString lib jsonData)"

definition ParseCursor :: "codec \<Rightarrow> CursorManager \<Rightarrow> int \<Rightarrow> string \<Rightarrow> error + CursorData" where
  "ParseCursor lib m unix_now cursor =
     (if cursor = [] then Inl (Msg ''empty cursor'')
      else
        (case DecodeString lib cursor of
           Inl err \<Rightarrow> Inl (Wrapped ''invalid cursor format'' (Msg err))
         | Inr decoded \<Rightarrow>
             (case json_Unmarshal lib decoded of
                Inl err \<Rightarrow> Inl (Wrapped ''cursor parsing failed'' (Msg err))
              | Inr data \<Rightarrow>
                  if Version data \<noteq> version m
                  then Inl (Msg (''cursor version mismatch: expected '' @ itoa (version m)
                                 @ '', got '' @ itoa (Version data)))
                  else if unix_now - Timestamp data > 24 * 60 * 60
                  then Inl (Msg ''cursor expired'')
                  else Inr data)))"

definition emptyCursorData :: CursorData where
  "emptyCursorData =
     \<lparr>ChunkID = [], Offset = 0, Version = 0, Checksum = [], Timestamp = 0, WindowInfo = None\<rparr>"

definition CreateChunkCursor ::
    "codec \<Rightarrow> CursorManager \<Rightarrow> int \<Rightarrow> string \<Rightarrow> int \<Rightarrow> string \<Rightarrow> Window option \<Rightarrow> string" where
  "CreateChunkCursor lib m unix_now chunkID offs checksum window =
     GenerateCursor lib m unix_now
       (emptyCursorData\<lparr>ChunkID := chunkID, Offset := offs, Checksum := checksum,
                         WindowInfo := window\<rparr>)"

definition CreateNavigationCursor ::
    "codec \<Rightarrow> CursorManager \<Rightarrow> int \<Rightarrow> string \<Rightarrow> int \<Rightarrow> string \<Rightarrow> string" where
  "CreateNavigationCursor lib m unix_now chunkID sheetIndex checksum =
     GenerateCursor lib m unix_now
       (emptyCursorData\<lparr>ChunkID := chunkID, Offset := sheetIndex, Checksum := checksum\<rparr>)"

definition CreateQueryCursor ::
    "codec \<Rightarrow> CursorManager \<Rightarrow> int \<Rightarrow> string \<Rightarrow> int \<Rightarrow> string \<Rightarrow> Window option \<Rightarrow> string" where
  "CreateQueryCursor lib m unix_now query offs checksum window =
     GenerateCursor lib m unix_now
       (emptyCursorData\<lparr>ChunkID := query, Offset := offs, Checksum := checksum,
                         WindowInfo := window\<rparr>)"

section \<open>Response types (internal/models/types.go)\<close>

text \<open>
  The records keep the fields that the modelled functions read or write. Left out, because
  nothing modelled depends on them: the zones, key points and hot zones of a sheet, the
  connections, search-index snapshot and delta tracking of a navigation index, and the
  statistics, adaptive response and timings of a query response.
\<close>

record SheetMetadata =
  Rows :: int
  Cols :: int
  DataDensity :: real
  HasFormulas :: bool
  MemoryFootprint :: int

record SheetIndex =
  SheetID :: string
  Name :: string
  si_Metadata :: SheetMetadata

record ChunkInfo =
  Current :: string
  TotalChunks :: int
  SheetsInChunk :: "string list"
  StreamingActive :: bool

record NavigationIndex =
  ChecksumMatch :: bool
  InvalidationRequired :: bool
  ni_ChunkInfo :: ChunkInfo
  ni_SheetIndex :: "SheetIndex list"

record ChunkMetadata =
  cm_Size :: int
  Truncated :: bool
  Compressed :: bool

record Context =
  Headers :: "string list"
  Nearby :: "(string \<times> iface) list"
  Formulas :: "string list"

record DataChunk =
  dc_Location :: string
  dc_Window :: string
  dc_DataChunk :: iface
  dc_Metadata :: ChunkMetadata
  dc_Context :: Context

record QueryExecution =
  UsedIndex :: bool
  IndexType :: string
  ChunksScanned :: "string list"
  Strategy :: string
  BloomFilterUsed :: bool

record QueryResults =
  Data :: "DataChunk list"

record Pagination =
  CurrentCursor :: string
  NextCursor :: string
  PreviousCursor :: string
  RemainingChunks :: int
  EstimatedTimeRemaining :: int

record IndexUpdates =
  NewPatterns :: "string list"
  SuggestedChunks :: "string list"
  DeltaApplied :: bool

record QueryDataResponse =
  qr_QueryExecution :: QueryExecution
  qr_Results :: QueryResults
  qr_Pagination :: Pagination
  qr_IndexUpdates :: IndexUpdates

section \<open>Tool: query\_data\<close>

text \<open>
  What the tool handler reaches outside the repository, as parameters: the cursor codec's
  library functions and the clock, the token counter applied to a result set (it fails
  when the value cannot be serialised), the rows \<open>extractRealSheetData\<close> reads from its
  workbook, and the bloom filter's collisions.
\<close>

record tool_env =
  env_lib :: codec
  env_unix_now :: int
  env_count :: "DataChunk list \<Rightarrow> string + int"
  env_extract :: "string \<Rightarrow> int \<Rightarrow> error + iface list"
  env_fp :: "string list \<Rightarrow> string \<Rightarrow> bool"

type_synonym config = "string \<Rightarrow> iface option"

definition wrap :: "string \<Rightarrow> 'a outcome \<Rightarrow> 'a outcome" where
  "wrap p r = (case r of Fails e \<Rightarrow> Fails (Wrapped p e) | other \<Rightarrow> other)"

definition parseNavigationIndex :: "(string \<times> iface) list \<Rightarrow> NavigationIndex outcome" where
  "parseNavigationIndex data =
     Returns
       \<lparr>ChecksumMatch = True, InvalidationRequired = False,
        ni_ChunkInfo = \<lparr>Current = ''chunk_0'', TotalChunks = 1, SheetsInChunk = [''Sheet1''],
                        StreamingActive = False\<rparr>,
        ni_SheetIndex =
          [\<lparr>SheetID = ''sheet_0'', Name = ''Sheet1'',
            si_Metadata = \<lparr>Rows = 1000, Cols = 26, DataDensity = 0.5, HasFormulas = True,
                            MemoryFootprint = 1024000\<rparr>\<rparr>]\<rparr>"

definition determineQueryStrategy :: "string \<Rightarrow> NavigationIndex \<Rightarrow> config \<Rightarrow> string" where
  "determineQueryStrategy query navIndex hints =
     (let preferSpeed = (case hints ''prefer_speed'' of Some (IBool ps) \<Rightarrow> ps | _ \<Rightarrow> True) in
      if Contains query ''='' \<and> preferSpeed then ''index''
      else if Contains query ''*'' \<or> Contains query ''?'' then ''scan''
      else if length (ni_SheetIndex navIndex) > 10 then ''hybrid''
      else ''scan'')"

definition detectIndexType :: "string \<Rightarrow> string" where
  "detectIndexType query =
     (if Contains query ''>='' \<or> Contains query ''<='' \<or> Contains query ''>'' \<or> Contains query ''<''
      then ''btree''
      else if Contains query ''NEAR'' \<or> Contains query ''WITHIN'' then ''spatial''
      else ''inverted'')"

definition isNumericRangeQuery :: "string \<Rightarrow> bool" where
  "isNumericRangeQuery query =
     (Contains query ''>='' \<or> Contains query ''<='' \<or> Contains query ''>'' \<or> Contains query ''<''
      \<or> Contains query ''BETWEEN'')"

definition parseNumericRange :: "string \<Rightarrow> real \<times> real" where
  "parseNumericRange query =
     (if Contains query ''BETWEEN'' then (10, 20)
      else if Contains query ''>='' then (10, 999999)
      else (0, 100))"

definition isSpatialQuery :: "string \<Rightarrow> bool" where
  "isSpatialQuery query =
     (Contains query ''NEAR'' \<or> Contains query ''WITHIN'' \<or> Contains query ''RANGE'')"

definition isTextQuery :: "string \<Rightarrow> bool" where
  "isTextQuery query = (\<not> isNumericRangeQuery query \<and> \<not> isSpatialQuery query)"

definition parseSpatialBounds :: "string \<Rightarrow> Rectangle" where
  "parseSpatialBounds query = \<lparr>rect_X = 0, rect_Y = 0, rect_Width = 100, rect_Height = 100\<rparr>"

definition config_int :: "config \<Rightarrow> string \<Rightarrow> int \<Rightarrow> int" where
  "config_int windowConfig k dflt = (case windowConfig k of Some (IInt n) \<Rightarrow> n | _ \<Rightarrow> dflt)"

definition locationChunk :: "Location \<Rightarrow> DataChunk" where
  "locationChunk loc =
     \<lparr>dc_Location = SheetName loc @ ''!'' @ CellRef loc,
      dc_Window = CellRef loc @ '':'' @ CellRef loc,
      dc_DataChunk = IString ''sample_value'',
      dc_Metadata = \<lparr>cm_Size = 64, Truncated = False, Compressed = False\<rparr>,
      dc_Context = \<lparr>Headers = [], Nearby = [], Formulas = []\<rparr>\<rparr>"

text \<open>The loop stops at the first index \<open>i >= maxResults\<close>.\<close>

definition convertLocationsToDataChunks :: "Location list \<Rightarrow> config \<Rightarrow> DataChunk list" where
  "convertLocationsToDataChunks locations windowConfig =
     (let maxResults = config_int windowConfig ''max_results'' 100 in
      map locationChunk (take (nat maxResults) locations))"

text \<open>
  \<open>executeIndexQuery\<close>. The final \<open>results[:maxResults]\<close> panics when \<open>maxResults\<close> is
  negative (it is then below the length of \<open>results\<close>).
\<close>

definition executeIndexQuery ::
    "tool_env \<Rightarrow> string \<Rightarrow> Manager \<Rightarrow> NavigationIndex \<Rightarrow> config \<Rightarrow> DataChunk list outcome" where
  "executeIndexQuery env query indexManager navIndex windowConfig =
     (let results =
            (if isNumericRangeQuery query
             then (case parseNumericRange query of
                     (min_v, max_v) \<Rightarrow>
                       convertLocationsToDataChunks
                         (SearchNumericRange indexManager min_v max_v) windowConfig)
             else if isTextQuery query
             then convertLocationsToDataChunks
                    (SearchText (env_fp env) indexManager query) windowConfig
             else if isSpatialQuery query
             then convertLocationsToDataChunks
                    (SearchSpatial indexManager (parseSpatialBounds query)) windowConfig
             else []);
          maxResults = config_int windowConfig ''max_results'' 100
      in if int (length results) > maxResults
         then (if maxResults < 0 then Panics ''slice bounds out of range''
               else Returns (take (nat maxResults) results))
         else Returns results)"

definition scanHeaders :: "string list" where
  "scanHeaders = [''Rayons'', ''Ventes_HT'', ''Marges'', ''Taux_Marge'', ''Demarque'', ''Frais'',
                  ''Marge_Theorique'']"

text \<open>
  The loop of \<open>executeScanQuery\<close>: \<open>i\<close> is the index of the next sheet, and the pair is
  \<open>results\<close> and \<open>chunksScanned\<close> so far.
\<close>

fun scanSheets :: "tool_env \<Rightarrow> string \<Rightarrow> int \<Rightarrow> int \<Rightarrow> int \<Rightarrow> SheetIndex list \<Rightarrow>
    DataChunk list \<times> string list \<Rightarrow> DataChunk list \<times> string list" where
  "scanSheets env query maxSheetsPerCall maxRowsPerSheet i [] acc = acc"
| "scanSheets env query maxSheetsPerCall maxRowsPerSheet i (sheet # sheets) (results, chunksScanned) =
     (if i \<ge> maxSheetsPerCall then (results, chunksScanned)
      else
        (let chunksScanned1 = chunksScanned @ [SheetID sheet] in
         if Contains (ToUpper (Name sheet)) (ToUpper query)
         then
           (case env_extract env (Name sheet) maxRowsPerSheet of
              Inl err \<Rightarrow>
                scanSheets env query maxSheetsPerCall maxRowsPerSheet (i + 1) sheets
                  (results, chunksScanned1)
            | Inr realData \<Rightarrow>
                scanSheets env query maxSheetsPerCall maxRowsPerSheet (i + 1) sheets
                  (results @
                     [\<lparr>dc_Location = Name sheet @ ''!A1'',
                       dc_Window = ''A1:Z'' @ itoa maxRowsPerSheet,
                       dc_DataChunk = ISlice realData,
                       dc_Metadata =
                         \<lparr>cm_Size = int (length realData) * 100,
                          Truncated = (Rows (si_Metadata sheet) > maxRowsPerSheet),
                          Compressed = False\<rparr>,
                       dc_Context =
                         \<lparr>Headers = scanHeaders,
                          Nearby = [(''sheet_data'', IInt (int (length realData)))],
                          Formulas = []\<rparr>\<rparr>],
                   chunksScanned1))
         else scanSheets env query maxSheetsPerCall maxRowsPerSheet (i + 1) sheets
                (results, chunksScanned1)))"

definition executeScanQuery ::
    "tool_env \<Rightarrow> string \<Rightarrow> NavigationIndex \<Rightarrow> config \<Rightarrow> DataChunk list \<times> string list" where
  "executeScanQuery env query navIndex windowConfig =
     scanSheets env query (config_int windowConfig ''max_sheets_per_call'' 10)
       (config_int windowConfig ''max_rows_per_sheet'' 1000) 0 (ni_SheetIndex navIndex) ([], [])"

definition executeQuery ::
    "tool_env \<Rightarrow> string \<Rightarrow> NavigationIndex \<Rightarrow> int \<Rightarrow> Window option \<Rightarrow> config \<Rightarrow> config \<Rightarrow>
     (QueryExecution \<times> QueryResults) outcome" where
  "executeQuery env query navIndex offs window windowConfig hints =
     (let strategy = determineQueryStrategy query navIndex hints;
          indexManager = NewManager
      in if strategy = ''index''
         then
           (case executeIndexQuery env query indexManager navIndex windowConfig of
              Returns results \<Rightarrow>
                Returns (\<lparr>UsedIndex = True, IndexType = detectIndexType query,
                          ChunksScanned = [], Strategy = strategy, BloomFilterUsed = True\<rparr>,
                         \<lparr>Data = results\<rparr>)
            | Fails e \<Rightarrow> Fails e
            | Panics p \<Rightarrow> Panics p)
         else if strategy = ''scan''
         then
           (case executeScanQuery env query navIndex windowConfig of
              (results, chunksScanned) \<Rightarrow>
                Returns (\<lparr>UsedIndex = False, IndexType = ''none'',
                          ChunksScanned = chunksScanned, Strategy = strategy,
                          BloomFilterUsed = False\<rparr>,
                         \<lparr>Data = results\<rparr>))
         else if strategy = ''hybrid''
         then
           (case executeIndexQuery env query indexManager navIndex windowConfig of
              Panics p \<Rightarrow> Panics p
            | Fails e \<Rightarrow>
                (case executeScanQuery env query navIndex windowConfig of
                   (scanResults, chunksScanned) \<Rightarrow>
                     Returns (\<lparr>UsedIndex = True, IndexType = ''hybrid'',
                               ChunksScanned = chunksScanned, Strategy = strategy,
                               BloomFilterUsed = True\<rparr>,
                              \<lparr>Data = scanResults\<rparr>))
            | Returns indexResults \<Rightarrow>
                (case executeScanQuery env query navIndex windowConfig of
                   (scanResults, chunksScanned) \<Rightarrow>
                     Returns (\<lparr>UsedIndex = True, IndexType = ''hybrid'',
                               ChunksScanned = chunksScanned, Strategy = strategy,
                               BloomFilterUsed = True\<rparr>,
                              \<lparr>Data = indexResults @ scanResults\<rparr>)))
         else Fails (Msg (''unknown query strategy: '' @ strategy)))"

text \<open>
  \<open>applyAdaptiveResponse\<close>, for its failure only: with \<open>token_aware\<close> the result set is
  counted, and a counting failure fails the call.
\<close>

definition applyAdaptiveResponse :: "tool_env \<Rightarrow> QueryResults \<Rightarrow> bool \<Rightarrow> unit outcome" where
  "applyAdaptiveResponse env results tokenAware =
     (if \<not> tokenAware then Returns ()
      else (case env_count env (Data results) of
              Inl err \<Rightarrow> Fails (Msg err)
            | Inr tokenCount \<Rightarrow> Returns ()))"

definition createQueryPagination :: "tool_env \<Rightarrow> string \<Rightarrow> int \<Rightarrow> int \<Rightarrow> config \<Rightarrow> Pagination" where
  "createQueryPagination env query offs resultCount windowConfig =
     (let maxResults = config_int windowConfig ''max_results'' 100;
          hasMore = (resultCount \<ge> maxResults);
          nextCursor =
            (if hasMore
             then CreateQueryCursor (env_lib env) cursor_NewManager (env_unix_now env) query
                    (offs + maxResults) []
                    (Some \<lparr>StartRow = offs + maxResults, EndRow = offs + maxResults * 2,
                           StartCol = 0, EndCol = 100\<rparr>)
             else [])
      in \<lparr>CurrentCursor = [], NextCursor = nextCursor, PreviousCursor = [],
          RemainingChunks = 0, EstimatedTimeRemaining = 0\<rparr>)"

definition detectIndexUpdates :: "string \<Rightarrow> QueryResults \<Rightarrow> IndexUpdates" where
  "detectIndexUpdates query results =
     \<lparr>NewPatterns =
        (if length (Data results) > 50 then [''high_volume_query''] else [])
        @ (if Contains query ''SUM'' \<or> Contains query ''COUNT'' then [''aggregation_query'']
           else []),
      SuggestedChunks = [], DeltaApplied = False\<rparr>"

definition defaultWindowConfig :: "(string \<times> iface) list" where
  "defaultWindowConfig =
     [(''max_rows_per_sheet'', IInt 1000), (''max_sheets_per_call'', IInt 10),
      (''max_results'', IInt 100), (''stream_large_results'', IBool False)]"

definition defaultHints :: "(string \<times> iface) list" where
  "defaultHints = [(''prefer_speed'', IBool True), (''prefer_completeness'', IBool False)]"

text \<open>The continuation cursor of \<open>QueryData\<close>: the offset and window it carries.\<close>

definition parseContinuation :: "tool_env \<Rightarrow> string \<Rightarrow> (int \<times> Window option) outcome" where
  "parseContinuation env continuationCursor =
     (if continuationCursor \<noteq> []
      then (case ParseCursor (env_lib env) cursor_NewManager (env_unix_now env)
                   continuationCursor of
              Inl err \<Rightarrow> Fails (Wrapped ''invalid continuation cursor'' err)
            | Inr cursorData \<Rightarrow> Returns (Offset cursorData, WindowInfo cursorData))
      else Returns (0, None))"

definition QueryData :: "tool_env \<Rightarrow> (string \<times> iface) list \<Rightarrow> QueryDataResponse outcome" where
  "QueryData env params =
     (case assert_string params ''query'' of
        None \<Rightarrow> Fails (Msg ''query parameter is required'')
      | Some query \<Rightarrow>
          (case assert_map params ''navigation_index'' of
             None \<Rightarrow> Fails (Msg ''navigation_index parameter is required'')
           | Some navigationIndexData \<Rightarrow>
               (let continuationCursor =
                      (case assert_string params ''continuation_cursor'' of
                         Some cc \<Rightarrow> cc | None \<Rightarrow> []);
                    windowConfig =
                      (case assert_map params ''window_config'' of
                         Some wc \<Rightarrow> map_of defaultWindowConfig ++ map_of wc
                       | None \<Rightarrow> map_of defaultWindowConfig);
                    tokenAware =
                      (case assert_bool params ''token_aware'' of Some ta \<Rightarrow> ta | None \<Rightarrow> True);
                    optimizationHints =
                      (case assert_map params ''optimization_hints'' of
                         Some oh \<Rightarrow> map_of defaultHints ++ map_of oh
                       | None \<Rightarrow> map_of defaultHints)
                in and_then (wrap ''failed to parse navigation index''
                               (parseNavigationIndex navigationIndexData))
                     (\<lambda>navigationIndex.
                   and_then (parseContinuation env continuationCursor)
                     (\<lambda>(offs, window).
                   and_then (wrap ''failed to execute query''
                               (executeQuery env query navigationIndex offs window
                                  windowConfig optimizationHints))
                     (\<lambda>(queryExecution, results).
                   and_then (wrap ''failed to apply adaptive response''
                               (applyAdaptiveResponse env results tokenAware))
                     (\<lambda>u.
                   Returns
                     \<lparr>qr_QueryExecution = queryExecution,
                      qr_Results = results,
                      qr_Pagination =
                        createQueryPagination env query offs
                          (int (length (Data results))) windowConfig,
                      qr_IndexUpdates = detectIndexUpdates query results\<rparr>)))))))"

section \<open>Tool: build\_navigation\_map (internal/server/tools.go)\<close>

record CacheControl =
  TTLSeconds :: int
  InvalidateOnChecksum :: bool
  HotDataExtension :: bool
  CacheKey :: string

record BuildNavigationResponse =
  bn_NavigationIndex :: NavigationIndex
  bn_Pagination :: Pagination
  bn_CacheControl :: CacheControl

text \<open>
  Parameters of the navigation tool: the cursor codec and clock, \<open>excelize.OpenFile\<close>
  (its failure carries the library's message), and two steps of the handler taken by
  their outcome only, since the response fields below are written after them:
  \<open>buildNavigationIndex\<close> (sheet metadata, zones and the search index) and
  \<open>calculateTokenTracking\<close>.
\<close>

record nav_env =
  nav_lib :: codec
  nav_unix_now :: int
  nav_OpenFile :: "string \<Rightarrow> string + workbook"
  nav_buildNavigationIndex ::
    "workbook \<Rightarrow> string \<Rightarrow> int \<Rightarrow> int \<Rightarrow> bool \<Rightarrow> bool \<Rightarrow> NavigationIndex outcome"
  nav_calculateTokenTracking :: "NavigationIndex \<Rightarrow> (string \<times> iface) list option \<Rightarrow> unit outcome"

definition calculateFileChecksum :: "string \<Rightarrow> error + string" where
  "calculateFileChecksum filepath = Inr ''dummy_checksum''"

definition createCacheControl :: "string \<Rightarrow> bool \<Rightarrow> CacheControl" where
  "createCacheControl checksum checksumMatch =
     \<lparr>TTLSeconds = (if checksumMatch then 600 else 300),
      InvalidateOnChecksum = True,
      HotDataExtension = checksumMatch,
      CacheKey = ''nav_'' @ checksum\<rparr>"

text \<open>Go's integer division truncates toward zero, and panics on a zero divisor.\<close>

definition go_div :: "int \<Rightarrow> int \<Rightarrow> int" where
  "go_div a b = sgn a * sgn b * (\<bar>a\<bar> div \<bar>b\<bar>)"

text \<open>The conversion \<open>int(f)\<close> of a \<open>float64\<close> drops the fraction.\<close>

definition float_to_int :: "real \<Rightarrow> int" where
  "float_to_int r = (if r \<ge> 0 then \<lfloor>r\<rfloor> else \<lceil>r\<rceil>)"

definition createPagination :: "codec \<Rightarrow> int \<Rightarrow> string \<Rightarrow> int \<Rightarrow> int \<Rightarrow> Pagination outcome" where
  "createPagination lib unix_now currentChunk totalItems windowSize =
     (if windowSize = 0 then Panics ''integer divide by zero''
      else
        (let totalChunks = go_div (totalItems + windowSize - 1) windowSize in
         Returns
           (if currentChunk \<noteq> []
            then \<lparr>CurrentCursor = currentChunk,
                  NextCursor =
                    CreateNavigationCursor lib cursor_NewManager unix_now ''next_chunk'' 1 [],
                  PreviousCursor =
                    CreateNavigationCursor lib cursor_NewManager unix_now ''prev_chunk'' 0 [],
                  RemainingChunks = totalChunks - 1,
                  EstimatedTimeRemaining = (totalChunks - 1) * 2\<rparr>
            else \<lparr>CurrentCursor = currentChunk, NextCursor = [], PreviousCursor = [],
                  RemainingChunks = 0, EstimatedTimeRemaining = 0\<rparr>)))"

definition parseChunkCursor :: "nav_env \<Rightarrow> string \<Rightarrow> (string \<times> int) outcome" where
  "parseChunkCursor env chunkCursor =
     (if chunkCursor \<noteq> []
      then (case ParseCursor (nav_lib env) cursor_NewManager (nav_unix_now env) chunkCursor of
              Inl err \<Rightarrow> Fails (Wrapped ''invalid cursor'' err)
            | Inr cursorData \<Rightarrow> Returns (ChunkID cursorData, Offset cursorData))
      else Returns ([], 0))"

definition BuildNavigationMap ::
    "nav_env \<Rightarrow> (string \<times> iface) list \<Rightarrow> BuildNavigationResponse outcome" where
  "BuildNavigationMap env params =
     (case assert_string params ''filepath'' of
        None \<Rightarrow> Fails (Msg ''filepath parameter is required'')
      | Some filepath \<Rightarrow>
          (case assert_string params ''checksum'' of
             None \<Rightarrow> Fails (Msg ''checksum parameter is required'')
           | Some checksum \<Rightarrow>
               (let chunkCursor =
                      (case assert_string params ''chunk_cursor'' of Some cc \<Rightarrow> cc | None \<Rightarrow> []);
                    windowSize =
                      (case assert_float64 params ''window_size'' of
                         Some ws \<Rightarrow> float_to_int ws | None \<Rightarrow> 1000);
                    streamResults =
                      (case assert_bool params ''stream_results'' of Some sr \<Rightarrow> sr | None \<Rightarrow> False);
                    tokenConfig = assert_map params ''token_config''
                in case nav_OpenFile env filepath of
                     Inl err \<Rightarrow> Fails (Wrapped ''failed to open XLSM file'' (Msg err))
                   | Inr file \<Rightarrow>
                       (case calculateFileChecksum filepath of
                          Inl err \<Rightarrow> Fails (Wrapped ''failed to calculate current checksum'' err)
                        | Inr currentChecksum \<Rightarrow>
                            (let checksumMatch = (currentChecksum = checksum);
                                 invalidationRequired = (\<not> checksumMatch)
                             in and_then (parseChunkCursor env chunkCursor)
                                  (\<lambda>(currentChunk, offs).
                                and_then (wrap ''failed to build navigation index''
                                            (nav_buildNavigationIndex env file currentChunk offs
                                               windowSize streamResults checksumMatch))
                                  (\<lambda>navigationIndex0.
                                (let navigationIndex =
                                       navigationIndex0
                                         \<lparr>ChecksumMatch := checksumMatch,
                                          InvalidationRequired := invalidationRequired\<rparr>
                                 in and_then (wrap ''failed to calculate token tracking''
                                                (nav_calculateTokenTracking env navigationIndex
                                                   tokenConfig))
                                      (\<lambda>u.
                                    and_then (createPagination (nav_lib env) (nav_unix_now env)
                                                currentChunk
                                                (int (length (ni_SheetIndex navigationIndex)))
                                                windowSize)
                                      (\<lambda>pagination.
                                    Returns
                                      \<lparr>bn_NavigationIndex = navigationIndex,
                                       bn_Pagination = pagination,
                                       bn_CacheControl =
                                         createCacheControl checksum checksumMatch\<rparr>))))))))))"

section \<open>Compression pipeline (internal/compression/manager.go)\<close>















section \<open>Dispatch (internal/server/server.go)\<close>














section \<open>Stand-ins for the external collaborators\<close>

text \<open>
  Concrete values for the parameters above, used where a property is evaluated at an
  input: a codec that knows one document, a workbook reader that knows one file, and a
  token counter that counts the chunks of a result set.
\<close>

definition sample_payload :: CursorData where
  "sample_payload =
     \<lparr>ChunkID = ''chunk_50_99'', Offset = 50, Version = 1, Checksum = ''abc'',
      Timestamp = 1000, WindowInfo = None\<rparr>"

definition sample_codec :: codec where
  "sample_codec =
     \<lparr>json_Marshal = (\<lambda>d. if d = sample_payload then Inr ''{chunk_50_99,50,1,abc,1000}''
                           else Inl ''unsupported value''),
      json_Unmarshal = (\<lambda>s. if s = ''{chunk_50_99,50,1,abc,1000}'' then Inr sample_payload
                             else Inl ''invalid character''),
      EncodeToString = (\<lambda>s. ''b64:'' @ s),
      DecodeString = (\<lambda>s. if HasPrefix s ''b64:'' then Inr (drop 4 s)
                           else Inl ''illegal base64 data'')\<rparr>"

definition sample_tool_env :: tool_env where
  "sample_tool_env =
     \<lparr>env_lib = sample_codec, env_unix_now = 1000,
      env_count = (\<lambda>ds. Inr (int (length ds))),
      env_extract = (\<lambda>sheet maxRows. Inl (Msg ''failed to open Excel file'')),
      env_fp = (\<lambda>b s. False)\<rparr>"

definition sample_workbook :: workbook where
  "sample_workbook = (\<lambda>sheet. if sheet = ''Sheet1'' then Some [[''ab'', ''42'']] else None)"

definition sample_nav_env :: nav_env where
  "sample_nav_env =
     \<lparr>nav_lib = sample_codec, nav_unix_now = 1000,
      nav_OpenFile = (\<lambda>path. if path = ''/data/book.xlsm'' then Inr sample_workbook
                             else Inl ''no such file or directory''),
      nav_buildNavigationIndex =
        (\<lambda>file currentChunk offs windowSize streamResults checksumMatch.
           Returns \<lparr>ChecksumMatch = False, InvalidationRequired = False,
                    ni_ChunkInfo = \<lparr>Current = currentChunk, TotalChunks = 1,
                                    SheetsInChunk = [''Sheet1''],
                                    StreamingActive = streamResults\<rparr>,
                    ni_SheetIndex =
                      [\<lparr>SheetID = ''sheet_0'', Name = ''Sheet1'',
                        si_Metadata = \<lparr>Rows = 1, Cols = 2, DataDensity = 1,
                                        HasFormulas = False, MemoryFootprint = 100\<rparr>\<rparr>]\<rparr>),
      nav_calculateTokenTracking = (\<lambda>navigationIndex tokenConfig. Returns ())\<rparr>"





text \<open>
  A run of the cache: \<open>set_keys n v\<close> is a new cache of 1 MiB after \<open>Set\<close> of the
  \<open>n\<close> distinct keys \<open>k\<close>, \<open>kk\<close>, \<open>kkk\<close>, ... in turn, each with the value \<open>v\<close>
  and a size of one byte.
\<close>

definition nth_key :: "nat \<Rightarrow> string" where
  "nth_key i = replicate (Suc i) CHR ''k''"

definition set_keys :: "nat \<Rightarrow> 'v \<Rightarrow> 'v SmartCache" where
  "set_keys n v = fold (\<lambda>i c. fst (Set c 0 (nth_key i) (Plain v) 1)) [0..<n] (NewSmartCache 1)"

definition one_byte :: HotEntry where
  "one_byte = \<lparr>AccessCount = 1, LastAccess = 0, TTL = 5 * minute, Size = 1\<rparr>"



section \<open>Properties of the smart cache\<close>

lemma evictPass_lru_size: "lru_size (fst (evictPass P n h (c, f))) = lru_size c"
  by (induction h arbitrary: c f) auto

lemma evictColdData_lru_size: "lru_size (fst (evictColdData c now n)) = lru_size c"
  unfolding evictColdData_def Let_def
  by (auto split: prod.splits simp: evictPass_lru_size dest!: arg_cong[where f=fst])

lemma lru_Add_front: "0 < n \<Longrightarrow> map_of (lru_Add n l k v) k = Some v"
  unfolding lru_Add_def by (cases l) (auto split: option.splits)

lemma Set_stores:
  assumes "0 < lru_size c" and "Set c now k v sz = (c', True)"
  shows "map_of (lru c') k = Some v"
proof -
  obtain c1 ok where e:
    "(if currentMem c + sz > maxMemory c then evictColdData c now sz else (c, True)) = (c1, ok)"
    by (cases "(if currentMem c + sz > maxMemory c then evictColdData c now sz else (c, True))")
  have sz1: "lru_size c1 = lru_size c"
    using e evictColdData_lru_size[of c now sz] by (auto split: if_splits)
  from assms(2) e have ok: ok
    by (auto simp: Set_def Let_def split: prod.splits if_splits)
  show ?thesis
    using assms e ok sz1
    by (auto simp: Set_def Let_def lru_Add_front split: prod.splits option.splits if_splits)
qed

lemma GetWithValidation_Plain:
  assumes "map_of (lru c) k = Some (Plain v)"
  shows "snd (GetWithValidation c now k expectedChecksum) = (Some v, True)"
    and "map_of (lru (fst (GetWithValidation c now k expectedChecksum))) k = Some (Plain v)"
  using assms
  by (auto simp: GetWithValidation_def Get_def lru_Get_def updateHotData_def Let_def
      split: prod.splits option.splits)

text \<open>
  Claim C10. A value stored by a successful plain \<open>Set\<close> (not a \<open>CacheEntry\<close>) is
  returned by \<open>GetWithValidation\<close> as a hit at every later clock reading and for every
  expected checksum: neither the expiration test nor the checksum comparison is applied,
  and the entry stays in the cache, so the next validated read hits again.
\<close>

theorem GetWithValidation_plain_hit:
  assumes "0 < lru_size c" and "Set c now k (Plain v) sz = (c', True)"
  shows "snd (GetWithValidation c' now' k expectedChecksum) = (Some v, True) \<and>
         map_of (lru (fst (GetWithValidation c' now' k expectedChecksum))) k = Some (Plain v)"
  using GetWithValidation_Plain[OF Set_stores[OF assms]] by simp

theorem GetWithValidation_plain_hit_witness:
  "snd (GetWithValidation (fst (Set (NewSmartCache 1) 0 ''k'' (Plain (7::nat)) 10))
          (1000 * minute) ''k'' ''0123abcd'') = (Some 7, True)"
proof -
  have h1: "0 < lru_size (NewSmartCache 1 :: nat SmartCache)"
    by (simp add: NewSmartCache_def)
  have h2: "Set (NewSmartCache 1) 0 ''k'' (Plain (7::nat)) 10
              = (fst (Set (NewSmartCache 1) 0 ''k'' (Plain (7::nat)) 10), True)"
    by (simp add: Set_def NewSmartCache_def lru_Get_def Let_def)
  show ?thesis
    using GetWithValidation_plain_hit[OF h1 h2] by simp
qed

lemma nth_key_inj: "nth_key i = nth_key j \<longleftrightarrow> i = j"
  by (auto simp: nth_key_def dest: arg_cong[where f=length])

lemma map_of_keys_None:
  "(\<forall>i \<in> set is. i \<noteq> j) \<Longrightarrow> map_of (map (\<lambda>i. (nth_key i, x)) is) (nth_key j) = None"
  by (induction "is") (auto simp: nth_key_inj)

lemma map_of_keys_Some:
  "j \<in> set is \<Longrightarrow> map_of (map (\<lambda>i. (nth_key i, x)) is) (nth_key j) = Some x"
  by (induction "is") (auto simp: nth_key_inj)

lemma set_keys_Suc: "set_keys (Suc n) v = fst (Set (set_keys n v) 0 (nth_key n) (Plain v) 1)"
  by (simp add: set_keys_def)

lemma set_keys_state:
  "n \<le> 1000 \<Longrightarrow>
   set_keys n v =
     \<lparr>lru = map (\<lambda>i. (nth_key i, Plain v)) (rev [0..<n]), lru_size = 1000,
      hotData = map (\<lambda>i. (nth_key i, one_byte)) [0..<n],
      maxMemory = 1048576, currentMem = int n,
      stats = \<lparr>Hits = 0, Misses = 0, Evictions = 0, HotPromotions = 0\<rparr>\<rparr>"
proof (induction n)
  case 0
  then show ?case by (simp add: set_keys_def NewSmartCache_def)
next
  case (Suc n)
  then have st: "set_keys n v =
     \<lparr>lru = map (\<lambda>i. (nth_key i, Plain v)) (rev [0..<n]), lru_size = 1000,
      hotData = map (\<lambda>i. (nth_key i, one_byte)) [0..<n],
      maxMemory = 1048576, currentMem = int n,
      stats = \<lparr>Hits = 0, Misses = 0, Evictions = 0, HotPromotions = 0\<rparr>\<rparr>" by simp
  have n1: "map_of (map (\<lambda>i. (nth_key i, Plain v)) (rev [0..<n])) (nth_key n) = None"
    by (rule map_of_keys_None) simp
  have n2: "map_of (map (\<lambda>i. (nth_key i, one_byte)) [0..<n]) (nth_key n) = None"
    by (rule map_of_keys_None) simp
  show ?case
    unfolding set_keys_Suc st Set_def lru_Get_def lru_Add_def hot_put_def Let_def
    using Suc.prems n1 n2 by (simp add: one_byte_def)
qed


lemma set_keys_overflow:
  assumes le: "n \<le> 1000" and ge: "1000 \<le> n"
  shows "fst (GetMemoryUsage (set_keys (Suc n) v)) = int n + 1 \<and>
         live_size (set_keys (Suc n) v) = int n \<and>
         length (lru (set_keys (Suc n) v)) = n \<and>
         snd (Get (set_keys (Suc n) v) 0 (nth_key 0)) = None"
proof -
  have pos: "0 < n" using ge by linarith
  have st: "set_keys n v =
     \<lparr>lru = map (\<lambda>i. (nth_key i, Plain v)) (rev [0..<n]), lru_size = 1000,
      hotData = map (\<lambda>i. (nth_key i, one_byte)) [0..<n],
      maxMemory = 1048576, currentMem = int n,
      stats = \<lparr>Hits = 0, Misses = 0, Evictions = 0, HotPromotions = 0\<rparr>\<rparr>"
    using set_keys_state[OF le] .
  have n1: "map_of (map (\<lambda>i. (nth_key i, Plain v)) (rev [0..<n])) (nth_key n) = None"
    by (rule map_of_keys_None) simp
  have n2: "map_of (map (\<lambda>i. (nth_key i, one_byte)) [0..<n]) (nth_key n) = None"
    by (rule map_of_keys_None) simp
  have up: "[0..<n] = 0 # [Suc 0..<n]" using pos by (simp add: upt_conv_Cons)
  have bl: "butlast (map (\<lambda>i. (nth_key i, Plain v)) (rev [0..<n]))
              = map (\<lambda>i. (nth_key i, Plain v)) (rev [Suc 0..<n])"
    by (subst up) (simp add: map_butlast[symmetric])
  have fin: "set_keys (Suc n) v =
     \<lparr>lru = map (\<lambda>i. (nth_key i, Plain v)) (n # rev [Suc 0..<n]), lru_size = 1000,
      hotData = map (\<lambda>i. (nth_key i, one_byte)) ([0..<n] @ [n]),
      maxMemory = 1048576, currentMem = int n + 1,
      stats = \<lparr>Hits = 0, Misses = 0, Evictions = 0, HotPromotions = 0\<rparr>\<rparr>"
  proof -
    have a: "\<not> int n + 1 > 1048576" using le by linarith
    have b: "length (map (\<lambda>i. (nth_key i, Plain v)) (rev [0..<n])) + 1 > 1000"
      using ge by simp
    have c: "butlast ((nth_key n, Plain v) # map (\<lambda>i. (nth_key i, Plain v)) (rev [0..<n]))
           = (nth_key n, Plain v) # map (\<lambda>i. (nth_key i, Plain v)) (rev [Suc 0..<n])"
      using bl pos by simp
    show ?thesis
      unfolding set_keys_Suc st Set_def lru_Get_def lru_Add_def hot_put_def Let_def
      using a b bl n1 n2 pos by (simp add: one_byte_def)
  qed
  have look: "\<And>j. j \<in> set (n # rev [Suc 0..<n]) \<Longrightarrow>
      map_of (map (\<lambda>i. (nth_key i, one_byte)) ([0..<n] @ [n])) (nth_key j) = Some one_byte"
    by (rule map_of_keys_Some) auto
  have live: "live_size (set_keys (Suc n) v) = int n"
  proof -
    have "live_size (set_keys (Suc n) v)
            = (\<Sum>j\<leftarrow>n # rev [Suc 0..<n].
                 case map_of (map (\<lambda>i. (nth_key i, one_byte)) ([0..<n] @ [n])) (nth_key j)
                 of Some e \<Rightarrow> Size e | None \<Rightarrow> 0)"
      unfolding live_size_def fin by (simp add: comp_def del: map_append)
    also have "\<dots> = (\<Sum>j\<leftarrow>n # rev [Suc 0..<n]. 1)"
      using look by (intro arg_cong[where f=sum_list] map_cong) (auto simp: one_byte_def)
    also have "\<dots> = int n" using pos by (simp add: sum_list_triv)
    finally show ?thesis .
  qed
  have miss: "map_of (map (\<lambda>i. (nth_key i, Plain v)) (n # rev [Suc 0..<n])) (nth_key 0) = None"
    by (rule map_of_keys_None) (use pos in auto)
  have len: "length (lru (set_keys (Suc n) v)) = n"
    unfolding fin using pos by simp
  have mem: "fst (GetMemoryUsage (set_keys (Suc n) v)) = int n + 1"
    unfolding fin by (simp add: GetMemoryUsage_def)
  have get: "snd (Get (set_keys (Suc n) v) 0 (nth_key 0)) = None"
    unfolding fin Get_def lru_Get_def using miss by simp
  show ?thesis using mem live len get by simp
qed

text \<open>
  Claim C1 at 1001 keys. The store holds 1000 entries; the 1001st \<open>Set\<close> makes it drop
  its oldest entry, and the eviction callback of \<open>NewSmartCache\<close> is empty, so neither
  \<open>currentMem\<close> nor \<open>hotData\<close> is told. \<open>GetMemoryUsage\<close> then reports 1001 bytes
  in use while the 1000 live entries hold 1000 bytes, and the first key is a miss.
\<close>

theorem lru_eviction_leaks_memory:
  "fst (GetMemoryUsage (set_keys 1001 v)) = 1001 \<and> live_size (set_keys 1001 v) = 1000 \<and>
   length (lru (set_keys 1001 v)) = 1000 \<and>
   snd (Get (set_keys 1001 v) 0 (nth_key 0)) = None"
proof -
  have e: "Suc 1000 = 1001" by simp
  show ?thesis
    using set_keys_overflow[of 1000 v] unfolding e by simp
qed

section \<open>Properties of the cursor codec\<close>



section \<open>Properties of the dispatcher\<close>





section \<open>Properties of query\_data\<close>

lemma and_then_Returns:
  "and_then r f = Returns y \<longleftrightarrow> (\<exists>x. r = Returns x \<and> f x = Returns y)"
  by (cases r) (auto simp: and_then_def)

lemma wrap_Returns: "wrap p r = Returns x \<longleftrightarrow> r = Returns x"
  by (cases r) (auto simp: wrap_def)

lemma assert_Cons_other:
  "k \<noteq> k' \<Longrightarrow> assert_string ((k, v) # rest) k' = assert_string rest k'"
  "k \<noteq> k' \<Longrightarrow> assert_map ((k, v) # rest) k' = assert_map rest k'"
  "k \<noteq> k' \<Longrightarrow> assert_bool ((k, v) # rest) k' = assert_bool rest k'"
  "k \<noteq> k' \<Longrightarrow> assert_float64 ((k, v) # rest) k' = assert_float64 rest k'"
  by (simp_all add: assert_string_def assert_map_def assert_bool_def assert_float64_def)

lemma assert_Cons_same:
  "assert_string ((k, IString str) # rest) k = Some str"
  "assert_map ((k, IMap m) # rest) k = Some m"
  "assert_bool ((k, IBool b) # rest) k = Some b"
  "assert_float64 ((k, IFloat64 r) # rest) k = Some r"
  by (simp_all add: assert_string_def assert_map_def assert_bool_def assert_float64_def)

lemma SearchNumericRange_New: "SearchNumericRange NewManager a b = []"
  by (simp add: SearchNumericRange_def NewManager_def AscendRange_def)

lemma SearchText_New: "SearchText fp NewManager q = []"
  by (simp add: SearchText_def NewManager_def bloom_Test_def)

lemma SearchSpatial_New: "SearchSpatial NewManager r = []"
  by (simp add: SearchSpatial_def NewManager_def NewQuadTree_def)

lemma executeIndexQuery_New:
  "executeIndexQuery env q NewManager nav wc = Returns rs \<Longrightarrow> rs = []"
  by (auto simp: executeIndexQuery_def SearchNumericRange_New SearchText_New SearchSpatial_New
      convertLocationsToDataChunks_def Let_def split: if_splits prod.splits)

lemma executeQuery_index:
  "executeQuery env q nav offs w wc hints = Returns (qe, rs) \<Longrightarrow> Strategy qe = ''index'' \<Longrightarrow>
   Data rs = []"
  by (auto simp: executeQuery_def Let_def split: if_splits outcome.splits prod.splits
      dest: executeIndexQuery_New)

lemma QueryData_index:
  assumes "QueryData env params = Returns resp"
    and "Strategy (qr_QueryExecution resp) = ''index''"
  shows "Data (qr_Results resp) = []"
  using assms
  unfolding QueryData_def Let_def
  by (auto split: option.splits prod.splits simp: and_then_Returns wrap_Returns
      dest!: executeQuery_index)

lemma QueryData_ignores_navigation_index:
  "QueryData env ((''navigation_index'', IMap nav) # rest)
     = QueryData env ((''navigation_index'', IMap nav') # rest)"
  by (simp add: QueryData_def assert_Cons_other assert_Cons_same parseNavigationIndex_def
      Let_def split: option.splits)

text \<open>
  Claim C9. A \<open>query_data\<close> call that returns with the strategy \<open>index\<close> returns no
  data: the search runs on the manager that \<open>executeQuery\<close> has just created. And the
  call does not depend on what the \<open>navigation_index\<close> argument contains:
  \<open>parseNavigationIndex\<close> puts a fixed one-sheet index in its place.
\<close>

theorem QueryData_index_returns_no_data:
  assumes "QueryData env params = Returns resp"
    and "Strategy (qr_QueryExecution resp) = ''index''"
  shows "Data (qr_Results resp) = [] \<and>
         parseNavigationIndex nav = parseNavigationIndex [] \<and>
         QueryData env ((''navigation_index'', IMap nav) # rest)
           = QueryData env ((''navigation_index'', IMap []) # rest)"
  using QueryData_index[OF assms] QueryData_ignores_navigation_index[of env nav rest "[]"]
  by (simp add: parseNavigationIndex_def)

lemma QueryData_sample_index:
  "QueryData sample_tool_env [(''query'', IString ''value=10''), (''navigation_index'', IMap [])]
   = Returns
       \<lparr>qr_QueryExecution =
          \<lparr>UsedIndex = True, IndexType = ''inverted'', ChunksScanned = [], Strategy = ''index'',
           BloomFilterUsed = True\<rparr>,
        qr_Results = \<lparr>Data = []\<rparr>,
        qr_Pagination =
          \<lparr>CurrentCursor = [], NextCursor = [], PreviousCursor = [], RemainingChunks = 0,
           EstimatedTimeRemaining = 0\<rparr>,
        qr_IndexUpdates = \<lparr>NewPatterns = [], SuggestedChunks = [], DeltaApplied = False\<rparr>\<rparr>"
  by (simp add: QueryData_def assert_string_def assert_map_def assert_bool_def Let_def
      parseNavigationIndex_def parseContinuation_def executeQuery_def determineQueryStrategy_def
      defaultHints_def defaultWindowConfig_def wrap_def and_then_def executeIndexQuery_def
      isNumericRangeQuery_def isTextQuery_def isSpatialQuery_def SearchText_New
      convertLocationsToDataChunks_def config_int_def sample_tool_env_def detectIndexType_def
      applyAdaptiveResponse_def createQueryPagination_def detectIndexUpdates_def)

theorem QueryData_index_returns_no_data_witness:
  "QueryData sample_tool_env [(''query'', IString ''value=10''), (''navigation_index'', IMap [])]
   = Returns
       \<lparr>qr_QueryExecution =
          \<lparr>UsedIndex = True, IndexType = ''inverted'', ChunksScanned = [], Strategy = ''index'',
           BloomFilterUsed = True\<rparr>,
        qr_Results = \<lparr>Data = []\<rparr>,
        qr_Pagination =
          \<lparr>CurrentCursor = [], NextCursor = [], PreviousCursor = [], RemainingChunks = 0,
           EstimatedTimeRemaining = 0\<rparr>,
        qr_IndexUpdates = \<lparr>NewPatterns = [], SuggestedChunks = [], DeltaApplied = False\<rparr>\<rparr>
   \<and> Data \<lparr>Data = ([] :: DataChunk list)\<rparr> = []"
proof -
  note h1 = QueryData_sample_index
  have h2: "Strategy (qr_QueryExecution
              \<lparr>qr_QueryExecution =
                 \<lparr>UsedIndex = True, IndexType = ''inverted'', ChunksScanned = [],
                  Strategy = ''index'', BloomFilterUsed = True\<rparr>,
               qr_Results = \<lparr>Data = []\<rparr>,
               qr_Pagination =
                 \<lparr>CurrentCursor = [], NextCursor = [], PreviousCursor = [],
                  RemainingChunks = 0, EstimatedTimeRemaining = 0\<rparr>,
               qr_IndexUpdates =
                 \<lparr>NewPatterns = [], SuggestedChunks = [], DeltaApplied = False\<rparr>\<rparr>) = ''index''"
    by simp
  show ?thesis
    using QueryData_index_returns_no_data[OF h1 h2] h1 by simp
qed

text \<open>
  Claim C6 at a navigation index of more than ten sheets. Whatever the
  \<open>navigation_index\<close> argument holds, the query \<open>FROUDIS\<close> (no equality operator, no
  wildcard) is answered with the strategy \<open>scan\<close>, over the one placeholder sheet.
\<close>

theorem QueryData_many_sheets_scan:
  "QueryData env
     [(''query'', IString ''FROUDIS''), (''navigation_index'', IMap nav),
      (''token_aware'', IBool False)]
   = Returns
       \<lparr>qr_QueryExecution =
          \<lparr>UsedIndex = False, IndexType = ''none'', ChunksScanned = [''sheet_0''],
           Strategy = ''scan'', BloomFilterUsed = False\<rparr>,
        qr_Results = \<lparr>Data = []\<rparr>,
        qr_Pagination =
          \<lparr>CurrentCursor = [], NextCursor = [], PreviousCursor = [], RemainingChunks = 0,
           EstimatedTimeRemaining = 0\<rparr>,
        qr_IndexUpdates = \<lparr>NewPatterns = [], SuggestedChunks = [], DeltaApplied = False\<rparr>\<rparr>"
  by (simp add: QueryData_def assert_string_def assert_map_def assert_bool_def Let_def
      parseNavigationIndex_def parseContinuation_def executeQuery_def determineQueryStrategy_def
      defaultHints_def defaultWindowConfig_def wrap_def and_then_def executeScanQuery_def
      ToUpper_def upper_char_def
      config_int_def applyAdaptiveResponse_def createQueryPagination_def detectIndexUpdates_def)

section \<open>Properties of build\_navigation\_map\<close>

text \<open>
  Claim C5 on the code. \<open>calculateFileChecksum\<close> returns the constant
  \<open>dummy_checksum\<close> and never reads the file, so in every response \<open>checksum_match\<close>
  and \<open>hot_data_extension\<close> say whether the caller sent that constant, and
  \<open>invalidation_required\<close> is the negation. A caller that sends the SHA-256 of the
  file, which is 64 hexadecimal digits, gets \<open>checksum_match = false\<close>.
\<close>

theorem BuildNavigationMap_checksum_constant:
  assumes "BuildNavigationMap env params = Returns resp"
  shows "\<exists>checksum. assert_string params ''checksum'' = Some checksum \<and>
           ChecksumMatch (bn_NavigationIndex resp) = (checksum = ''dummy_checksum'') \<and>
           InvalidationRequired (bn_NavigationIndex resp) = (checksum \<noteq> ''dummy_checksum'') \<and>
           HotDataExtension (bn_CacheControl resp) = (checksum = ''dummy_checksum'')"
  using assms
  unfolding BuildNavigationMap_def Let_def calculateFileChecksum_def
  by (auto split: option.splits sum.splits prod.splits
      simp: and_then_Returns wrap_Returns createCacheControl_def)

lemma BuildNavigationMap_sample:
  "BuildNavigationMap sample_nav_env
     [(''filepath'', IString ''/data/book.xlsm''),
      (''checksum'', IString ''e3b0c44298fc1c149afbf4c8996fb92427ae41e4649b934ca495991b7852b855'')]
   = Returns
       \<lparr>bn_NavigationIndex =
          \<lparr>ChecksumMatch = False, InvalidationRequired = True,
           ni_ChunkInfo = \<lparr>Current = [], TotalChunks = 1, SheetsInChunk = [''Sheet1''],
                           StreamingActive = False\<rparr>,
           ni_SheetIndex =
             [\<lparr>SheetID = ''sheet_0'', Name = ''Sheet1'',
               si_Metadata = \<lparr>Rows = 1, Cols = 2, DataDensity = 1, HasFormulas = False,
                               MemoryFootprint = 100\<rparr>\<rparr>]\<rparr>,
        bn_Pagination =
          \<lparr>CurrentCursor = [], NextCursor = [], PreviousCursor = [], RemainingChunks = 0,
           EstimatedTimeRemaining = 0\<rparr>,
        bn_CacheControl =
          \<lparr>TTLSeconds = 300, InvalidateOnChecksum = True, HotDataExtension = False,
           CacheKey = ''nav_e3b0c44298fc1c149afbf4c8996fb92427ae41e4649b934ca495991b7852b855''\<rparr>\<rparr>"
  by (simp add: BuildNavigationMap_def assert_string_def assert_map_def assert_bool_def
      assert_float64_def Let_def sample_nav_env_def calculateFileChecksum_def
      parseChunkCursor_def and_then_def wrap_def createPagination_def createCacheControl_def)

theorem BuildNavigationMap_checksum_constant_witness:
  "ChecksumMatch (bn_NavigationIndex
      \<lparr>bn_NavigationIndex =
         \<lparr>ChecksumMatch = False, InvalidationRequired = True,
          ni_ChunkInfo = \<lparr>Current = [], TotalChunks = 1, SheetsInChunk = [''Sheet1''],
                          StreamingActive = False\<rparr>,
          ni_SheetIndex =
            [\<lparr>SheetID = ''sheet_0'', Name = ''Sheet1'',
              si_Metadata = \<lparr>Rows = 1, Cols = 2, DataDensity = 1, HasFormulas = False,
                              MemoryFootprint = 100\<rparr>\<rparr>]\<rparr>,
       bn_Pagination =
         \<lparr>CurrentCursor = [], NextCursor = [], PreviousCursor = [], RemainingChunks = 0,
          EstimatedTimeRemaining = 0\<rparr>,
       bn_CacheControl =
         \<lparr>TTLSeconds = 300, InvalidateOnChecksum = True, HotDataExtension = False,
          CacheKey = ''nav_e3b0c44298fc1c149afbf4c8996fb92427ae41e4649b934ca495991b7852b855''\<rparr>\<rparr>)
     = (''e3b0c44298fc1c149afbf4c8996fb92427ae41e4649b934ca495991b7852b855'' = ''dummy_checksum'')"
  using BuildNavigationMap_checksum_constant[OF BuildNavigationMap_sample]
  by (simp add: assert_string_def)

section \<open>Properties of the compression pipeline\<close>






















section \<open>Properties of the index engine\<close>




























end
